theory Spec2Isabelle
  imports Complex_Main
begin

section \<open>JavaScript values\<close>

text \<open>
  The script \<^verbatim>\<open>contents/code/main.js\<close> is one function, \<^verbatim>\<open>notifyActiveWindow\<close>,
  and one top-level statement that connects it to the host's signal
  \<^verbatim>\<open>workspace.windowActivated\<close>. JavaScript is untyped, so the argument of the function is
  any value of the language. A number is an IEEE double: not-a-number, an infinity with its
  sign (\<open>True\<close> for the negative one), the negative zero, or a finite value, which is a
  rational (\<open>Finite 0\<close> is the positive zero). A string is a list of characters; an object,
  a function among them, is a reference into the store.
\<close>

datatype jsnum = NaN | Infinity bool | NegZero | Finite rat

type_synonym ref = nat

datatype jsval =
    JUndefined
  | JNull
  | JBool bool
  | JNum jsnum
  | JStr string
  | JSymbol nat
  | JObj ref

text \<open>
  A property is a data property, which holds a value, or an accessor, which holds the
  function that a read calls (undefined when there is no getter). What a function does
  when it is called is named by its code: the built-in \<^verbatim>\<open>Object.prototype.hasOwnProperty\<close>,
  or code that comes with the window, known by a number.
\<close>

datatype property = Data jsval | Accessor jsval

datatype fid = HasOwnProperty_builtin | Code nat

text \<open>
  An object has own properties, a prototype, which is an object again or null, and, when
  it is a function, the code a call runs. The prototype is held by value: the chain is
  finite and has no cycle, as in the language.
\<close>

datatype obj =
  Obj (own: "string \<Rightarrow> property option") (proto: "obj option") (call: "fid option")

datatype primkind = KBoolean | KNumber | KString | KSymbol

text \<open>An exception: the TypeError the language raises, or a value that code of the
  window throws.\<close>

datatype error = TypeError | Thrown jsval

text \<open>
  One call of the host's \<^verbatim>\<open>callDBus(service, path, interface, method, arg...)\<close>, as it
  leaves the script.
\<close>

record dbus_call =
  service :: string
  path :: string
  interface :: string
  method_name :: string
  args :: "jsval list"

text \<open>The functions connected to a signal of the host. The script declares one function.\<close>

datatype slot = NotifyActiveWindow

text \<open>
  The state the script runs in: the store of objects, the prototypes of the wrappers of the
  primitive values, the lines the script wrote to the console (oldest first), the D-Bus
  calls the script made (oldest first) and the connections the script made to the signal
  \<^verbatim>\<open>workspace.windowActivated\<close>, in the order they were made.
\<close>

record state =
  heap :: "ref \<Rightarrow> obj"
  prim_proto :: "primkind \<Rightarrow> obj"
  console :: "string list"
  dbus :: "dbus_call list"
  windowActivated :: "slot list"

text \<open>
  The code that comes with the windows is not part of the script: it is a parameter. Code
  number \<open>n\<close>, called on a receiver with arguments (the script passes strings only), reads
  and writes the store of objects and returns a value or throws. It is taken to end.
\<close>

type_synonym code =
  "nat \<Rightarrow> jsval \<Rightarrow> string list \<Rightarrow> (ref \<Rightarrow> obj) \<Rightarrow> (error + jsval) \<times> (ref \<Rightarrow> obj)"

section \<open>Evaluation with state and exceptions\<close>

text \<open>A step returns a value or throws, and leaves a state either way.\<close>

type_synonym 'a res = "(error + 'a) \<times> state"

definition returnS :: "'a \<Rightarrow> state \<Rightarrow> 'a res" where
  "returnS x s = (Inr x, s)"

definition bindS :: "(state \<Rightarrow> 'a res) \<Rightarrow> ('a \<Rightarrow> state \<Rightarrow> 'b res) \<Rightarrow> state \<Rightarrow> 'b res" where
  "bindS m f s = (case m s of (Inl e, s') \<Rightarrow> (Inl e, s') | (Inr x, s') \<Rightarrow> f x s')"

section \<open>The operations of the language the script uses\<close>

text \<open>\<^verbatim>\<open>!window\<close> is the negation of ToBoolean: the falsy values are undefined, null,
  false, the two zeros, NaN and the empty string.\<close>

fun ToBoolean :: "jsval \<Rightarrow> bool" where
  "ToBoolean JUndefined = False"
| "ToBoolean JNull = False"
| "ToBoolean (JBool b) = b"
| "ToBoolean (JNum NaN) = False"
| "ToBoolean (JNum NegZero) = False"
| "ToBoolean (JNum (Finite q)) = (q \<noteq> 0)"
| "ToBoolean (JNum (Infinity neg)) = True"
| "ToBoolean (JStr str) = (str \<noteq> [])"
| "ToBoolean (JSymbol n) = True"
| "ToBoolean (JObj r) = True"

text \<open>The property a read finds on an object: the own property, or else the one of the
  prototype, or none at the end of the chain.\<close>

fun lookup :: "obj \<Rightarrow> string \<Rightarrow> property option" where
  "lookup (Obj ps pr c) k =
     (case ps k of
        Some p \<Rightarrow> Some p
      | None \<Rightarrow> (case pr of None \<Rightarrow> None | Some ob \<Rightarrow> lookup ob k))"

text \<open>The own properties of a string value: its length and its characters, under the
  canonical decimal names of their positions.\<close>

definition is_digit :: "char \<Rightarrow> bool" where
  "is_digit c = (48 \<le> (of_char c :: nat) \<and> (of_char c :: nat) \<le> 57)"

definition array_index :: "string \<Rightarrow> nat option" where
  "array_index k =
     (if k = [] then None
      else if \<not> list_all is_digit k then None
      else if hd k = CHR ''0'' \<and> k \<noteq> ''0'' then None
      else Some (foldl (\<lambda>n c. 10 * n + (of_char c - 48)) 0 k))"

definition string_own :: "string \<Rightarrow> string \<Rightarrow> jsval option" where
  "string_own str k =
     (if k = ''length'' then Some (JNum (Finite (of_nat (length str))))
      else case array_index k of
             None \<Rightarrow> None
           | Some i \<Rightarrow> if i < length str then Some (JStr [str ! i]) else None)"

text \<open>The own property of a value under a name, after the conversion to an object that a
  property access makes: undefined and null have none and throw.\<close>

fun GetOwnProperty :: "state \<Rightarrow> jsval \<Rightarrow> string \<Rightarrow> error + property option" where
  "GetOwnProperty s JUndefined k = Inl TypeError"
| "GetOwnProperty s JNull k = Inl TypeError"
| "GetOwnProperty s (JObj r) k = Inr (own (heap s r) k)"
| "GetOwnProperty s (JStr str) k = Inr (map_option Data (string_own str k))"
| "GetOwnProperty s (JBool b) k = Inr None"
| "GetOwnProperty s (JNum n) k = Inr None"
| "GetOwnProperty s (JSymbol n) k = Inr None"

text \<open>The property that a read of \<^verbatim>\<open>v.k\<close> finds: an own one, or one of the prototype
  chain (for a primitive value, the chain of its wrapper).\<close>

fun find_prop :: "state \<Rightarrow> jsval \<Rightarrow> string \<Rightarrow> error + property option" where
  "find_prop s JUndefined k = Inl TypeError"
| "find_prop s JNull k = Inl TypeError"
| "find_prop s (JObj r) k = Inr (lookup (heap s r) k)"
| "find_prop s (JStr str) k =
     Inr (case string_own str k of
            Some v \<Rightarrow> Some (Data v)
          | None \<Rightarrow> lookup (prim_proto s KString) k)"
| "find_prop s (JBool b) k = Inr (lookup (prim_proto s KBoolean) k)"
| "find_prop s (JNum n) k = Inr (lookup (prim_proto s KNumber) k)"
| "find_prop s (JSymbol n) k = Inr (lookup (prim_proto s KSymbol) k)"

text \<open>The built-in \<^verbatim>\<open>hasOwnProperty\<close>, called on a receiver: the name asked for is the
  first argument (\<open>''undefined''\<close> when there is none).\<close>

definition hasOwnProperty :: "jsval \<Rightarrow> string list \<Rightarrow> state \<Rightarrow> jsval res" where
  "hasOwnProperty this as s =
     (case GetOwnProperty s this (case as of [] \<Rightarrow> ''undefined'' | k # ks \<Rightarrow> k) of
        Inl e \<Rightarrow> (Inl e, s)
      | Inr p \<Rightarrow> (Inr (JBool (p \<noteq> None)), s))"

text \<open>The call \<^verbatim>\<open>f.call(this, as...)\<close> of a value: a TypeError when the value is not a
  function.\<close>

definition Call :: "code \<Rightarrow> jsval \<Rightarrow> jsval \<Rightarrow> string list \<Rightarrow> state \<Rightarrow> jsval res" where
  "Call run f this as s =
     (case f of
        JObj r \<Rightarrow>
          (case call (heap s r) of
             None \<Rightarrow> (Inl TypeError, s)
           | Some HasOwnProperty_builtin \<Rightarrow> hasOwnProperty this as s
           | Some (Code n) \<Rightarrow>
               (case run n this as (heap s) of (x, h) \<Rightarrow> (x, s\<lparr>heap := h\<rparr>)))
      | _ \<Rightarrow> (Inl TypeError, s))"

text \<open>\<^verbatim>\<open>v.k\<close>: the read of a property of any value. A data property gives its value, an
  accessor calls its getter on \<open>v\<close>.\<close>

definition GetV :: "code \<Rightarrow> jsval \<Rightarrow> string \<Rightarrow> state \<Rightarrow> jsval res" where
  "GetV run v k s =
     (case find_prop s v k of
        Inl e \<Rightarrow> (Inl e, s)
      | Inr None \<Rightarrow> (Inr JUndefined, s)
      | Inr (Some (Data x)) \<Rightarrow> (Inr x, s)
      | Inr (Some (Accessor g)) \<Rightarrow>
          if g = JUndefined then (Inr JUndefined, s) else Call run g v [] s)"

text \<open>\<^verbatim>\<open>v.name(as...)\<close>: the read of the property \<open>name\<close> of \<open>v\<close>, then the call of
  the value found, on \<open>v\<close>.\<close>

definition call_method :: "code \<Rightarrow> jsval \<Rightarrow> string \<Rightarrow> string list \<Rightarrow> state \<Rightarrow> jsval res" where
  "call_method run v name as = bindS (GetV run v name) (\<lambda>f. Call run f v as)"

text \<open>The conditional expression \<^verbatim>\<open>c ? a : b\<close>: only the chosen branch is evaluated.\<close>

definition cond ::
  "(state \<Rightarrow> jsval res) \<Rightarrow> (state \<Rightarrow> 'a res) \<Rightarrow> (state \<Rightarrow> 'a res) \<Rightarrow> state \<Rightarrow> 'a res" where
  "cond c a b = bindS c (\<lambda>t. if ToBoolean t then a else b)"

section \<open>The host\<close>

definition console_log :: "string \<Rightarrow> state \<Rightarrow> unit res" where
  "console_log msg s = (Inr (), s\<lparr>console := console s @ [msg]\<rparr>)"

definition callDBus ::
  "string \<Rightarrow> string \<Rightarrow> string \<Rightarrow> string \<Rightarrow> jsval list \<Rightarrow> state \<Rightarrow> unit res" where
  "callDBus sv p i m as s =
     (Inr (), s\<lparr>dbus := dbus s @
        [\<lparr>service = sv, path = p, interface = i, method_name = m, args = as\<rparr>]\<rparr>)"

definition connect :: "slot \<Rightarrow> state \<Rightarrow> state" where
  "connect f s = s\<lparr>windowActivated := windowActivated s @ [f]\<rparr>"

section \<open>The script\<close>

definition notifyActiveWindow :: "code \<Rightarrow> jsval \<Rightarrow> state \<Rightarrow> unit res" where
  "notifyActiveWindow run window =
     (if \<not> ToBoolean window then console_log ''The client object is null''
      else
        bindS (cond (call_method run window ''hasOwnProperty'' [''caption''])
                 (GetV run window ''caption'') (returnS (JStr ''UNDEF''))) (\<lambda>caption.
        bindS (cond (call_method run window ''hasOwnProperty'' [''resourceClass''])
                 (GetV run window ''resourceClass'') (returnS (JStr ''UNDEF''))) (\<lambda>resourceClass.
        bindS (cond (call_method run window ''hasOwnProperty'' [''resourceName''])
                 (GetV run window ''resourceName'') (returnS (JStr ''UNDEF''))) (\<lambda>resourceName.
        callDBus
          ''org.toshy.Toshy''
          ''/org/toshy/Toshy''
          ''org.toshy.Toshy''
          ''NotifyActiveWindow''
          [caption, resourceClass, resourceName]))))"

text \<open>The top level of the script: the declaration of the function, and the one statement
  \<^verbatim>\<open>workspace.windowActivated.connect(notifyActiveWindow)\<close>.\<close>

definition main_script :: "state \<Rightarrow> state" where
  "main_script s = connect NotifyActiveWindow s"

text \<open>The host emits the signal with the activated window: every connected function
  runs, in the order of connection. A function that throws ends there, with the state it
  had reached.\<close>

fun invoke :: "code \<Rightarrow> slot \<Rightarrow> jsval \<Rightarrow> state \<Rightarrow> state" where
  "invoke run NotifyActiveWindow w s = snd (notifyActiveWindow run w s)"

definition emit_windowActivated :: "code \<Rightarrow> jsval \<Rightarrow> state \<Rightarrow> state" where
  "emit_windowActivated run w s = fold (\<lambda>f. invoke run f w) (windowActivated s) s"

section \<open>Notions the statements use\<close>

text \<open>\<^verbatim>\<open>typeof v === "string"\<close>.\<close>

fun is_string :: "jsval \<Rightarrow> bool" where
  "is_string (JStr str) = True"
| "is_string v = False"

text \<open>
  A window handle as the host delivers it: a value that is not falsy, on which the name
  \<^verbatim>\<open>hasOwnProperty\<close> reaches, as a data property, the built-in function of
  \<^verbatim>\<open>Object.prototype\<close>, and on which each of the three attributes is absent or a data
  property. On such a handle the script runs no code of the window. The attributes are
  strings, as the data model types them, when \<open>string_attributes\<close> holds.
\<close>

definition builtin_hasOwnProperty :: "state \<Rightarrow> jsval \<Rightarrow> bool" where
  "builtin_hasOwnProperty s w =
     (case find_prop s w ''hasOwnProperty'' of
        Inr (Some (Data (JObj r))) \<Rightarrow> call (heap s r) = Some HasOwnProperty_builtin
      | _ \<Rightarrow> False)"

definition data_attribute :: "state \<Rightarrow> jsval \<Rightarrow> string \<Rightarrow> bool" where
  "data_attribute s w k =
     (case GetOwnProperty s w k of Inr (Some (Accessor g)) \<Rightarrow> False | _ \<Rightarrow> True)"

definition window_handle :: "state \<Rightarrow> jsval \<Rightarrow> bool" where
  "window_handle s w =
     (ToBoolean w \<and> builtin_hasOwnProperty s w \<and>
      list_all (data_attribute s w) [''caption'', ''resourceClass'', ''resourceName''])"

definition string_attributes :: "state \<Rightarrow> jsval \<Rightarrow> bool" where
  "string_attributes s w =
     list_all (\<lambda>k. case GetOwnProperty s w k of
                     Inr (Some (Data v)) \<Rightarrow> is_string v
                   | _ \<Rightarrow> True)
       [''caption'', ''resourceClass'', ''resourceName'']"

text \<open>Two states that differ in the store of objects at most.\<close>

definition store_only :: "state \<Rightarrow> state \<Rightarrow> bool" where
  "store_only s s' =
     (prim_proto s' = prim_proto s \<and> console s' = console s \<and> dbus s' = dbus s \<and>
      windowActivated s' = windowActivated s)"

section \<open>Example hosts and windows\<close>

text \<open>
  A host before the script is loaded: nothing on the console, no D-Bus call made, no
  function connected. Reference 0 holds the built-in function, which \<open>Object_prototype\<close>
  has under the name \<^verbatim>\<open>hasOwnProperty\<close>; every other object, and every wrapper of a
  primitive value, has no own property and inherits from \<open>Object_prototype\<close>.
  \<open>with_window ob\<close> is that host with the object \<open>ob\<close> at reference 1.
\<close>

definition hasOwnProperty_function :: obj where
  "hasOwnProperty_function = Obj (\<lambda>k. None) None (Some HasOwnProperty_builtin)"

definition Object_prototype :: obj where
  "Object_prototype = Obj [''hasOwnProperty'' \<mapsto> Data (JObj 0)] None None"

definition plain_obj :: obj where
  "plain_obj = Obj (\<lambda>k. None) (Some Object_prototype) None"

definition host0 :: state where
  "host0 = \<lparr>heap = (\<lambda>r. plain_obj)(0 := hasOwnProperty_function),
            prim_proto = (\<lambda>k. plain_obj),
            console = [], dbus = [], windowActivated = []\<rparr>"

definition with_window :: "obj \<Rightarrow> state" where
  "with_window ob = host0\<lparr>heap := (heap host0)(1 := ob)\<rparr>"

definition konsole :: obj where
  "konsole = Obj [''caption'' \<mapsto> Data (JStr ''Terminal''),
                  ''resourceClass'' \<mapsto> Data (JStr ''org.kde.konsole''),
                  ''resourceName'' \<mapsto> Data (JStr ''konsole'')]
               (Some Object_prototype) None"

definition only_caption :: obj where
  "only_caption = Obj [''caption'' \<mapsto> Data (JStr ''Foo'')] (Some Object_prototype) None"

definition blank_caption :: obj where
  "blank_caption = Obj [''caption'' \<mapsto> Data (JStr '''')] (Some Object_prototype) None"

definition inherited_name :: obj where
  "inherited_name =
     Obj [''caption'' \<mapsto> Data JUndefined, ''resourceClass'' \<mapsto> Data JNull]
       (Some (Obj [''resourceName'' \<mapsto> Data (JStr ''konsole'')] (Some Object_prototype) None))
       None"

text \<open>
  Windows outside that description, and code for them. Code 0 returns false; code 1 stores
  \<open>''changed''\<close> as the \<^verbatim>\<open>resourceName\<close> of its receiver and returns \<open>''T''\<close>.
  \<open>uncallable\<close> has the number 5 under the name \<^verbatim>\<open>hasOwnProperty\<close>; \<open>bare\<close> has the
  three attributes and no prototype; \<open>shadowed\<close> has, under that name, the function at
  reference 2, which runs code 0; \<open>with_getter\<close> has an accessor \<^verbatim>\<open>caption\<close> whose
  getter is the function at reference 3, which runs code 1.
\<close>

fun set_own :: "obj \<Rightarrow> string \<Rightarrow> property \<Rightarrow> obj" where
  "set_own (Obj ps pr c) k p = Obj (ps(k \<mapsto> p)) pr c"

definition window_code :: code where
  "window_code n this as h =
     (if n = 0 then (Inr (JBool False), h)
      else if n = 1 then
        (case this of
           JObj r \<Rightarrow> (Inr (JStr ''T''),
                       h(r := set_own (h r) ''resourceName'' (Data (JStr ''changed''))))
         | _ \<Rightarrow> (Inr (JStr ''T''), h))
      else (Inr JUndefined, h))"

definition uncallable :: obj where
  "uncallable = Obj [''caption'' \<mapsto> Data (JStr ''X''),
                     ''hasOwnProperty'' \<mapsto> Data (JNum (Finite 5))]
                  (Some Object_prototype) None"

definition bare :: obj where
  "bare = Obj [''caption'' \<mapsto> Data (JStr ''Terminal''),
               ''resourceClass'' \<mapsto> Data (JStr ''org.kde.konsole''),
               ''resourceName'' \<mapsto> Data (JStr ''konsole'')] None None"

definition shadowed :: obj where
  "shadowed = Obj [''caption'' \<mapsto> Data (JStr ''X''),
                   ''hasOwnProperty'' \<mapsto> Data (JObj 2)]
                (Some Object_prototype) None"

definition with_getter :: obj where
  "with_getter = Obj [''caption'' \<mapsto> Accessor (JObj 3),
                      ''resourceName'' \<mapsto> Data (JStr ''orig'')]
                   (Some Object_prototype) None"

definition code_host :: "obj \<Rightarrow> state" where
  "code_host ob =
     host0\<lparr>heap := (heap host0)
       (1 := ob,
        2 := Obj (\<lambda>k. None) None (Some (Code 0)),
        3 := Obj (\<lambda>k. None) None (Some (Code 1)))\<rparr>"

section \<open>What the function does on a window handle\<close>

lemma lookup_own: "own ob k = Some p \<Longrightarrow> lookup ob k = Some p"
  by (cases ob) simp

lemma truthy_GetOwnProperty: "ToBoolean w \<Longrightarrow> \<exists>p. GetOwnProperty s w k = Inr p"
  by (cases w) simp_all

lemma find_prop_own:
  "GetOwnProperty s w k = Inr (Some p) \<Longrightarrow> find_prop s w k = Inr (Some p)"
  by (cases w) (auto simp: lookup_own)

lemma GetV_data: "GetOwnProperty s w k = Inr (Some (Data v)) \<Longrightarrow> GetV run w k s = (Inr v, s)"
  by (simp add: GetV_def find_prop_own)

text \<open>Where \<^verbatim>\<open>hasOwnProperty\<close> reaches the built-in, the call is the own-property
  test and changes nothing.\<close>

lemma call_builtin_hasOwnProperty:
  assumes "builtin_hasOwnProperty s w" and "GetOwnProperty s w k = Inr p"
  shows "call_method run w ''hasOwnProperty'' [k] s = (Inr (JBool (p \<noteq> None)), s)"
  using assms
  by (auto simp: builtin_hasOwnProperty_def call_method_def bindS_def GetV_def Call_def
        hasOwnProperty_def
      split: sum.splits option.splits property.splits jsval.splits)

lemma attr_present:
  assumes "builtin_hasOwnProperty s w" and "GetOwnProperty s w k = Inr (Some (Data v))"
  shows "cond (call_method run w ''hasOwnProperty'' [k]) (GetV run w k)
           (returnS (JStr ''UNDEF'')) s = (Inr v, s)"
  by (simp add: cond_def bindS_def call_builtin_hasOwnProperty [OF assms] GetV_data [OF assms(2)])

lemma attr_absent:
  assumes "builtin_hasOwnProperty s w" and "GetOwnProperty s w k = Inr None"
  shows "cond (call_method run w ''hasOwnProperty'' [k]) (GetV run w k)
           (returnS (JStr ''UNDEF'')) s = (Inr (JStr ''UNDEF''), s)"
  by (simp add: cond_def bindS_def call_builtin_hasOwnProperty [OF assms] returnS_def)

lemma attr_handle:
  assumes "ToBoolean w" and "builtin_hasOwnProperty s w" and "data_attribute s w k"
  shows "cond (call_method run w ''hasOwnProperty'' [k]) (GetV run w k)
           (returnS (JStr ''UNDEF'')) s =
         (Inr (case GetOwnProperty s w k of Inr (Some (Data v)) \<Rightarrow> v | _ \<Rightarrow> JStr ''UNDEF''), s)"
proof -
  obtain p where p: "GetOwnProperty s w k = Inr p"
    using truthy_GetOwnProperty [OF assms(1)] by blast
  show ?thesis
  proof (cases p)
    case None
    with p assms(2) show ?thesis by (simp add: attr_absent)
  next
    case (Some q)
    with p assms(3) obtain v where "q = Data v"
      by (cases q) (simp_all add: data_attribute_def)
    with p Some assms(2) show ?thesis by (simp add: attr_present)
  qed
qed

text \<open>On a window handle the function returns, having made one call and changed nothing
  else, whatever the code of the windows.\<close>

lemma notifyActiveWindow_handle:
  assumes "window_handle s w"
  shows "notifyActiveWindow run w s =
   (Inr (), s\<lparr>dbus := dbus s @
     [\<lparr>service = ''org.toshy.Toshy'', path = ''/org/toshy/Toshy'',
       interface = ''org.toshy.Toshy'', method_name = ''NotifyActiveWindow'',
       args = [case GetOwnProperty s w ''caption'' of
                 Inr (Some (Data v)) \<Rightarrow> v | _ \<Rightarrow> JStr ''UNDEF'',
               case GetOwnProperty s w ''resourceClass'' of
                 Inr (Some (Data v)) \<Rightarrow> v | _ \<Rightarrow> JStr ''UNDEF'',
               case GetOwnProperty s w ''resourceName'' of
                 Inr (Some (Data v)) \<Rightarrow> v | _ \<Rightarrow> JStr ''UNDEF'']\<rparr>]\<rparr>)"
proof -
  from assms have t: "ToBoolean w" and b: "builtin_hasOwnProperty s w"
    and d: "data_attribute s w ''caption''" "data_attribute s w ''resourceClass''"
      "data_attribute s w ''resourceName''"
    by (simp_all add: window_handle_def)
  show ?thesis
    by (simp add: notifyActiveWindow_def t bindS_def callDBus_def
          attr_handle [OF t b d(1)] attr_handle [OF t b d(2)] attr_handle [OF t b d(3)])
qed

lemma notifyActiveWindow_falsy:
  "\<not> ToBoolean w \<Longrightarrow>
   notifyActiveWindow run w s =
     (Inr (), s\<lparr>console := console s @ [''The client object is null'']\<rparr>)"
  by (simp add: notifyActiveWindow_def console_log_def)

section \<open>What the function does on any argument\<close>

text \<open>A read and a call change the store of objects at most.\<close>

lemma store_only_refl: "store_only s s"
  by (simp add: store_only_def)

lemma store_only_trans: "store_only s s' \<Longrightarrow> store_only s' s'' \<Longrightarrow> store_only s s''"
  by (simp add: store_only_def)

lemma hasOwnProperty_state: "snd (hasOwnProperty this as s) = s"
  by (simp add: hasOwnProperty_def split: sum.splits)

lemma Call_state: "store_only s (snd (Call run f this as s))"
  by (auto simp: Call_def hasOwnProperty_state store_only_def
      split: jsval.splits option.splits fid.splits prod.splits)

lemma GetV_state: "store_only s (snd (GetV run v k s))"
  by (auto simp: GetV_def Call_state store_only_refl
      split: sum.splits option.splits property.splits)

lemma bindS_state:
  assumes "store_only s (snd (m s))"
    and "\<And>x s'. store_only s' (snd (f x s'))"
  shows "store_only s (snd (bindS m f s))"
proof (cases "m s")
  case (Pair r s')
  with assms(1) have "store_only s s'" by simp
  with Pair assms(2) show ?thesis
    by (cases r) (auto simp: bindS_def intro: store_only_trans)
qed

lemma call_method_state: "store_only s (snd (call_method run v name as s))"
  unfolding call_method_def by (rule bindS_state) (rule GetV_state Call_state)+

lemma attr_state:
  "store_only s (snd (cond (call_method run w ''hasOwnProperty'' [k]) (GetV run w k)
     (returnS (JStr ''UNDEF'')) s))"
  unfolding cond_def
  by (rule bindS_state) (simp_all add: call_method_state GetV_state returnS_def store_only_refl)

text \<open>Whatever the argument and the code of the windows, the function writes at most one
  line or makes at most one call, with the fixed addressing and three arguments, and
  leaves the connections as they were.\<close>

lemma notifyActiveWindow_outputs:
  "\<exists>ls cs. console (snd (notifyActiveWindow run w s)) = console s @ ls \<and>
     dbus (snd (notifyActiveWindow run w s)) = dbus s @ cs \<and>
     length ls + length cs \<le> 1 \<and>
     list_all (\<lambda>c. service c = ''org.toshy.Toshy'' \<and> path c = ''/org/toshy/Toshy'' \<and>
        interface c = ''org.toshy.Toshy'' \<and> method_name c = ''NotifyActiveWindow'' \<and>
        length (args c) = 3) cs \<and>
     windowActivated (snd (notifyActiveWindow run w s)) = windowActivated s \<and>
     prim_proto (snd (notifyActiveWindow run w s)) = prim_proto s"
proof (cases "ToBoolean w")
  case False
  then show ?thesis by (simp add: notifyActiveWindow_falsy)
next
  case True
  let ?attr = "\<lambda>k. cond (call_method run w ''hasOwnProperty'' [k]) (GetV run w k)
     (returnS (JStr ''UNDEF''))"
  obtain r1 s1 where 1: "?attr ''caption'' s = (r1, s1)" by (cases "?attr ''caption'' s")
  obtain r2 s2 where 2: "?attr ''resourceClass'' s1 = (r2, s2)"
    by (cases "?attr ''resourceClass'' s1")
  obtain r3 s3 where 3: "?attr ''resourceName'' s2 = (r3, s3)"
    by (cases "?attr ''resourceName'' s2")
  have "store_only s s1" using attr_state [of s run w "''caption''"] 1 by simp
  moreover have "store_only s1 s2" using attr_state [of s1 run w "''resourceClass''"] 2 by simp
  moreover have "store_only s2 s3" using attr_state [of s2 run w "''resourceName''"] 3 by simp
  ultimately have so: "store_only s s1" "store_only s s2" "store_only s s3"
    by (auto intro: store_only_trans)
  show ?thesis
    using so 1 2 3 True
    by (cases r1; cases r2; cases r3)
       (simp_all add: notifyActiveWindow_def bindS_def callDBus_def store_only_def)
qed

section \<open>What the reads depend on\<close>

text \<open>The own properties, the properties a read finds and the description of a window
  handle depend on the store of objects and on the prototypes of the wrappers only.\<close>

lemma GetOwnProperty_heap:
  "heap s' = heap s \<Longrightarrow> GetOwnProperty s' w k = GetOwnProperty s w k"
  by (cases w) simp_all

lemma find_prop_heap:
  "heap s' = heap s \<Longrightarrow> prim_proto s' = prim_proto s \<Longrightarrow> find_prop s' w k = find_prop s w k"
  by (cases w) (simp_all split: option.splits)

lemma window_handle_heap:
  assumes "heap s' = heap s" and "prim_proto s' = prim_proto s"
  shows "window_handle s' w = window_handle s w"
  by (simp add: window_handle_def builtin_hasOwnProperty_def data_attribute_def
        GetOwnProperty_heap [OF assms(1)] find_prop_heap [OF assms] assms(1)
      cong: sum.case_cong option.case_cong property.case_cong jsval.case_cong)

section \<open>The connections under the signal\<close>

lemma invoke_windowActivated: "windowActivated (invoke run f w s) = windowActivated s"
  using notifyActiveWindow_outputs [of run w s] by (cases f) auto

lemma fold_invoke_windowActivated:
  "windowActivated (fold (\<lambda>f. invoke run f w) fs s) = windowActivated s"
  by (induction fs arbitrary: s) (simp_all add: invoke_windowActivated)

lemma emit_windowActivated_connections:
  "windowActivated (emit_windowActivated run w s) = windowActivated s"
  by (simp add: emit_windowActivated_def fold_invoke_windowActivated)

lemma events_connections:
  "windowActivated (fold (emit_windowActivated run) ws s) = windowActivated s"
  by (induction ws arbitrary: s) (simp_all add: emit_windowActivated_connections)

lemma falsy_values:
  "(\<not> ToBoolean w) =
   (w \<in> {JUndefined, JNull, JBool False, JNum NaN, JNum NegZero, JNum (Finite 0), JStr ''''})"
  by (cases w rule: ToBoolean.cases) auto

section \<open>The example windows that are window handles\<close>

lemma window_handle_konsole: "window_handle (with_window konsole) (JObj 1)"
  by (simp add: window_handle_def builtin_hasOwnProperty_def data_attribute_def
        with_window_def host0_def konsole_def Object_prototype_def hasOwnProperty_function_def)

lemma window_handle_only_caption: "window_handle (with_window only_caption) (JObj 1)"
  by (simp add: window_handle_def builtin_hasOwnProperty_def data_attribute_def
        with_window_def host0_def only_caption_def Object_prototype_def
        hasOwnProperty_function_def)

lemma window_handle_blank_caption: "window_handle (with_window blank_caption) (JObj 1)"
  by (simp add: window_handle_def builtin_hasOwnProperty_def data_attribute_def
        with_window_def host0_def blank_caption_def Object_prototype_def
        hasOwnProperty_function_def)

lemma window_handle_inherited_name: "window_handle (with_window inherited_name) (JObj 1)"
  by (simp add: window_handle_def builtin_hasOwnProperty_def data_attribute_def
        with_window_def host0_def inherited_name_def Object_prototype_def
        hasOwnProperty_function_def)

section \<open>Windows that are no window handles\<close>

text \<open>
  What the function does on the four windows described with the examples. Where the name
  \<^verbatim>\<open>hasOwnProperty\<close> holds a number, and where the object has no prototype, the call of
  line 8 throws a TypeError and no D-Bus call is made. Where a function that returns false
  shadows the built-in, an own \<^verbatim>\<open>caption\<close> is sent as \<open>''UNDEF''\<close>. Where
  \<^verbatim>\<open>caption\<close> is an accessor, its getter runs: the window is changed, and the changed
  \<^verbatim>\<open>resourceName\<close> is what is sent.
\<close>

lemmas run_defs = notifyActiveWindow_def bindS_def cond_def call_method_def GetV_def Call_def
  hasOwnProperty_def returnS_def callDBus_def code_host_def host0_def Object_prototype_def
  hasOwnProperty_function_def window_code_def

lemma uncallable_throws:
  "notifyActiveWindow window_code (JObj 1) (code_host uncallable) =
     (Inl TypeError, code_host uncallable)"
  by (simp add: run_defs uncallable_def)

lemma bare_throws:
  "notifyActiveWindow window_code (JObj 1) (code_host bare) = (Inl TypeError, code_host bare)"
  by (simp add: run_defs bare_def)

lemma shadowed_sends_UNDEF:
  "notifyActiveWindow window_code (JObj 1) (code_host shadowed) =
     (Inr (), (code_host shadowed)\<lparr>dbus :=
       [\<lparr>service = ''org.toshy.Toshy'', path = ''/org/toshy/Toshy'',
         interface = ''org.toshy.Toshy'', method_name = ''NotifyActiveWindow'',
         args = [JStr ''UNDEF'', JStr ''UNDEF'', JStr ''UNDEF'']\<rparr>]\<rparr>)"
  by (simp add: run_defs shadowed_def)

lemma getter_changes_window:
  "notifyActiveWindow window_code (JObj 1) (code_host with_getter) =
     (Inr (), (code_host with_getter)\<lparr>
        heap := (heap (code_host with_getter))
          (1 := set_own with_getter ''resourceName'' (Data (JStr ''changed''))),
        dbus :=
       [\<lparr>service = ''org.toshy.Toshy'', path = ''/org/toshy/Toshy'',
         interface = ''org.toshy.Toshy'', method_name = ''NotifyActiveWindow'',
         args = [JStr ''T'', JStr ''UNDEF'', JStr ''changed'']\<rparr>]\<rparr>)"
  by (simp add: run_defs with_getter_def)

section \<open>The call on a window with all three attributes\<close>

text \<open>
  C1. For every non-null window handle on which \<^verbatim>\<open>caption\<close>, \<^verbatim>\<open>resourceClass\<close> and
  \<^verbatim>\<open>resourceName\<close> are all present, with strings as their values, the function makes
  exactly one D-Bus call and changes nothing else; the call passes the three values as
  positional string arguments in the order caption, resourceClass, resourceName. This holds
  whatever the code of the windows is: on a window handle none of it runs.
\<close>

theorem all_present_passed_in_order:
  assumes "window_handle s window"
    and "GetOwnProperty s window ''caption'' = Inr (Some (Data (JStr a)))"
    and "GetOwnProperty s window ''resourceClass'' = Inr (Some (Data (JStr b)))"
    and "GetOwnProperty s window ''resourceName'' = Inr (Some (Data (JStr c)))"
  shows "notifyActiveWindow run window s =
         (Inr (), s\<lparr>dbus := dbus s @
           [\<lparr>service = ''org.toshy.Toshy'', path = ''/org/toshy/Toshy'',
             interface = ''org.toshy.Toshy'', method_name = ''NotifyActiveWindow'',
             args = [JStr a, JStr b, JStr c]\<rparr>]\<rparr>)"
  using assms(2-4) by (simp add: notifyActiveWindow_handle [OF assms(1)])

text \<open>The window of the specification's example: the call carries
  \<open>(''Terminal'', ''org.kde.konsole'', ''konsole'')\<close>.\<close>

theorem all_present_passed_in_order_witness:
  "notifyActiveWindow window_code (JObj 1) (with_window konsole) =
   (Inr (), (with_window konsole)\<lparr>dbus :=
     [\<lparr>service = ''org.toshy.Toshy'', path = ''/org/toshy/Toshy'',
       interface = ''org.toshy.Toshy'', method_name = ''NotifyActiveWindow'',
       args = [JStr ''Terminal'', JStr ''org.kde.konsole'', JStr ''konsole'']\<rparr>]\<rparr>)"
  using all_present_passed_in_order [OF window_handle_konsole,
      of "''Terminal''" "''org.kde.konsole''" "''konsole''" window_code]
  by (simp add: with_window_def host0_def konsole_def)

section \<open>Missing attributes\<close>

text \<open>
  C2. For every non-null window handle that lacks one or more of the three attributes, the
  function makes one call whose argument in the position of a missing attribute is the
  string \<open>''UNDEF''\<close> and whose argument in the position of a present attribute is the
  attribute's value, unchanged.
\<close>

theorem missing_attributes_default_to_UNDEF:
  assumes "window_handle s window"
    and "\<exists>k \<in> {''caption'', ''resourceClass'', ''resourceName''}.
           GetOwnProperty s window k = Inr None"
  shows "\<exists>a b c.
           notifyActiveWindow run window s =
           (Inr (), s\<lparr>dbus := dbus s @
             [\<lparr>service = ''org.toshy.Toshy'', path = ''/org/toshy/Toshy'',
               interface = ''org.toshy.Toshy'', method_name = ''NotifyActiveWindow'',
               args = [a, b, c]\<rparr>]\<rparr>) \<and>
           (\<forall>(k, x) \<in> {(''caption'', a), (''resourceClass'', b), (''resourceName'', c)}.
              (GetOwnProperty s window k = Inr None \<longrightarrow> x = JStr ''UNDEF'') \<and>
              (\<forall>v. GetOwnProperty s window k = Inr (Some (Data v)) \<longrightarrow> x = v))"
  unfolding notifyActiveWindow_handle [OF assms(1)]
  by (intro exI conjI, rule refl) simp

text \<open>The specification's example: only \<^verbatim>\<open>caption\<close> is present, with the value
  \<open>''Foo''\<close>.\<close>

theorem missing_attributes_default_to_UNDEF_witness:
  "notifyActiveWindow window_code (JObj 1) (with_window only_caption) =
   (Inr (), (with_window only_caption)\<lparr>dbus :=
     [\<lparr>service = ''org.toshy.Toshy'', path = ''/org/toshy/Toshy'',
       interface = ''org.toshy.Toshy'', method_name = ''NotifyActiveWindow'',
       args = [JStr ''Foo'', JStr ''UNDEF'', JStr ''UNDEF'']\<rparr>]\<rparr>)"
  using missing_attributes_default_to_UNDEF [OF window_handle_only_caption, of window_code]
  by (simp add: with_window_def host0_def only_caption_def)

section \<open>The null window\<close>

text \<open>
  C3, as amended. For the window null the function makes no D-Bus call, writes exactly one
  line to the console, \<open>''The client object is null''\<close> (with a capital T), and returns
  with nothing else changed.
\<close>

theorem null_window_logs_once:
  "notifyActiveWindow run JNull s =
     (Inr (), s\<lparr>console := console s @ [''The client object is null'']\<rparr>) \<and>
   dbus (s\<lparr>console := console s @ [''The client object is null'']\<rparr>) = dbus s"
  by (simp add: notifyActiveWindow_falsy)

text \<open>On the host with an empty console.\<close>

theorem null_window_logs_once_witness:
  "notifyActiveWindow window_code JNull host0 =
     (Inr (), host0\<lparr>console := [''The client object is null'']\<rparr>)"
  using null_window_logs_once [of window_code host0] by (simp add: host0_def)

text \<open>The line written is not the one with a small t.\<close>

theorem null_message_counterexample:
  "notifyActiveWindow window_code JNull host0 =
     (Inr (), host0\<lparr>console := [''The client object is null'']\<rparr>) \<and>
   console (host0\<lparr>console := [''The client object is null'']\<rparr>) \<noteq>
     [''the client object is null'']"
  by (simp add: notifyActiveWindow_falsy host0_def)

section \<open>The addressing of the call\<close>

text \<open>
  C4. Whatever the argument and the code of the windows, and whether the function returns
  or throws, it makes at most one D-Bus call, and every call it makes has the bus name
  \<open>''org.toshy.Toshy''\<close>, the object path \<open>''/org/toshy/Toshy''\<close>, the interface
  \<open>''org.toshy.Toshy''\<close>, the method \<open>''NotifyActiveWindow''\<close> and three arguments. On a
  window handle it makes exactly one; and the three arguments are strings on a window
  handle whose attributes, where present, are strings.
\<close>

theorem dbus_call_fixed_addressing:
  "\<exists>cs. dbus (snd (notifyActiveWindow run window s)) = dbus s @ cs \<and> length cs \<le> 1 \<and>
     (window_handle s window \<longrightarrow> length cs = 1) \<and>
     (\<forall>c \<in> set cs.
        service c = ''org.toshy.Toshy'' \<and> path c = ''/org/toshy/Toshy'' \<and>
        interface c = ''org.toshy.Toshy'' \<and> method_name c = ''NotifyActiveWindow'' \<and>
        length (args c) = 3 \<and>
        (window_handle s window \<and> string_attributes s window
           \<longrightarrow> list_all is_string (args c)))"
proof (cases "window_handle s window")
  case True
  show ?thesis
    unfolding notifyActiveWindow_handle [OF True]
    by (auto simp: string_attributes_def split: sum.splits option.splits property.splits)
next
  case False
  obtain cs where
    "dbus (snd (notifyActiveWindow run window s)) = dbus s @ cs"
    "length cs \<le> 1"
    "list_all (\<lambda>c. service c = ''org.toshy.Toshy'' \<and> path c = ''/org/toshy/Toshy'' \<and>
        interface c = ''org.toshy.Toshy'' \<and> method_name c = ''NotifyActiveWindow'' \<and>
        length (args c) = 3) cs"
    using notifyActiveWindow_outputs [of run window s] by auto
  with False show ?thesis
    by (intro exI [of _ cs]) (auto simp: list_all_iff)
qed

text \<open>The call made for the window of the specification's example.\<close>

theorem dbus_call_fixed_addressing_witness:
  "dbus (snd (notifyActiveWindow window_code (JObj 1) (with_window konsole))) =
     [\<lparr>service = ''org.toshy.Toshy'', path = ''/org/toshy/Toshy'',
       interface = ''org.toshy.Toshy'', method_name = ''NotifyActiveWindow'',
       args = [JStr ''Terminal'', JStr ''org.kde.konsole'', JStr ''konsole'']\<rparr>] \<and>
   list_all (\<lambda>c. service c = ''org.toshy.Toshy'' \<and> path c = ''/org/toshy/Toshy'' \<and>
        interface c = ''org.toshy.Toshy'' \<and> method_name c = ''NotifyActiveWindow'' \<and>
        length (args c) = 3 \<and> list_all is_string (args c))
     (dbus (snd (notifyActiveWindow window_code (JObj 1) (with_window konsole)))) \<and>
   length (dbus (snd (notifyActiveWindow window_code (JObj 1) (with_window konsole)))) = 1"
proof -
  have strings: "string_attributes (with_window konsole) (JObj 1)"
    by (simp add: string_attributes_def with_window_def host0_def konsole_def)
  have empty: "dbus (with_window konsole) = []"
    by (simp add: with_window_def host0_def)
  have call: "dbus (snd (notifyActiveWindow window_code (JObj 1) (with_window konsole))) =
     [\<lparr>service = ''org.toshy.Toshy'', path = ''/org/toshy/Toshy'',
       interface = ''org.toshy.Toshy'', method_name = ''NotifyActiveWindow'',
       args = [JStr ''Terminal'', JStr ''org.kde.konsole'', JStr ''konsole'']\<rparr>]"
    unfolding notifyActiveWindow_handle [OF window_handle_konsole]
    by (simp add: with_window_def host0_def konsole_def)
  obtain cs where cs:
    "dbus (snd (notifyActiveWindow window_code (JObj 1) (with_window konsole))) = cs"
    "length cs = 1"
    "\<forall>c \<in> set cs.
        service c = ''org.toshy.Toshy'' \<and> path c = ''/org/toshy/Toshy'' \<and>
        interface c = ''org.toshy.Toshy'' \<and> method_name c = ''NotifyActiveWindow'' \<and>
        length (args c) = 3 \<and> list_all is_string (args c)"
    using dbus_call_fixed_addressing [of window_code "JObj 1" "with_window konsole"]
      window_handle_konsole strings empty
    by auto
  from cs show ?thesis
    using call by (simp add: list_all_iff)
qed

section \<open>The empty string\<close>

text \<open>
  C5. For every non-null window handle, an attribute that is present with the empty string
  as its value is passed as \<open>''''\<close> in its position, not as \<open>''UNDEF''\<close>. Only absence
  brings the default: an absent attribute is passed as \<open>''UNDEF''\<close>, and an argument is
  \<open>''UNDEF''\<close> only when the attribute is absent or holds that very string.
\<close>

theorem empty_string_passed_through:
  assumes "window_handle s window"
  shows "\<exists>a b c.
           notifyActiveWindow run window s =
           (Inr (), s\<lparr>dbus := dbus s @
             [\<lparr>service = ''org.toshy.Toshy'', path = ''/org/toshy/Toshy'',
               interface = ''org.toshy.Toshy'', method_name = ''NotifyActiveWindow'',
               args = [a, b, c]\<rparr>]\<rparr>) \<and>
           (\<forall>(k, x) \<in> {(''caption'', a), (''resourceClass'', b), (''resourceName'', c)}.
              (GetOwnProperty s window k = Inr (Some (Data (JStr ''''))) \<longrightarrow>
                 x = JStr '''' \<and> x \<noteq> JStr ''UNDEF'') \<and>
              (GetOwnProperty s window k = Inr None \<longrightarrow> x = JStr ''UNDEF'') \<and>
              (x = JStr ''UNDEF'' \<longrightarrow>
                 GetOwnProperty s window k = Inr None \<or>
                 GetOwnProperty s window k = Inr (Some (Data (JStr ''UNDEF'')))))"
proof -
  from assms have t: "ToBoolean window"
    and d: "data_attribute s window ''caption''" "data_attribute s window ''resourceClass''"
      "data_attribute s window ''resourceName''"
    by (simp_all add: window_handle_def)
  obtain p1 p2 p3 where ps:
    "GetOwnProperty s window ''caption'' = Inr p1"
    "GetOwnProperty s window ''resourceClass'' = Inr p2"
    "GetOwnProperty s window ''resourceName'' = Inr p3"
    using truthy_GetOwnProperty [OF t] by meson
  show ?thesis
    unfolding notifyActiveWindow_handle [OF assms]
    by (intro exI conjI, rule refl)
       (use ps d in \<open>auto simp: data_attribute_def split: option.splits property.splits\<close>)
qed

text \<open>A window whose only own attribute is a \<^verbatim>\<open>caption\<close> that is the empty string.\<close>

theorem empty_string_passed_through_witness:
  "notifyActiveWindow window_code (JObj 1) (with_window blank_caption) =
   (Inr (), (with_window blank_caption)\<lparr>dbus :=
     [\<lparr>service = ''org.toshy.Toshy'', path = ''/org/toshy/Toshy'',
       interface = ''org.toshy.Toshy'', method_name = ''NotifyActiveWindow'',
       args = [JStr '''', JStr ''UNDEF'', JStr ''UNDEF'']\<rparr>]\<rparr>)"
  using empty_string_passed_through [OF window_handle_blank_caption, of window_code]
  by (simp add: with_window_def host0_def blank_caption_def)

section \<open>Two invocations\<close>

text \<open>
  C6. For every non-null window handle, the function called twice in succession makes two
  D-Bus calls that are equal, both appended: the second invocation is not suppressed and
  does not reuse the first. The call is the same in every state in which the window is a
  handle with the same three own attributes, whatever was logged or called before: the
  function keeps no state of its own.
\<close>

theorem two_invocations_two_identical_calls:
  assumes "window_handle s window"
  shows "\<exists>c. notifyActiveWindow run window s = (Inr (), s\<lparr>dbus := dbus s @ [c]\<rparr>) \<and>
              bindS (notifyActiveWindow run window) (\<lambda>u. notifyActiveWindow run window) s =
                (Inr (), s\<lparr>dbus := dbus s @ [c, c]\<rparr>) \<and>
              (\<forall>t. window_handle t window \<and>
                   (\<forall>k \<in> {''caption'', ''resourceClass'', ''resourceName''}.
                      GetOwnProperty t window k = GetOwnProperty s window k) \<longrightarrow>
                   notifyActiveWindow run window t = (Inr (), t\<lparr>dbus := dbus t @ [c]\<rparr>))"
proof -
  have again: "window_handle (s\<lparr>dbus := d\<rparr>) window" for d
    using assms by (simp add: window_handle_heap [of "s\<lparr>dbus := d\<rparr>" s])
  have same: "GetOwnProperty (s\<lparr>dbus := d\<rparr>) window k = GetOwnProperty s window k" for d k
    by (rule GetOwnProperty_heap) simp
  show ?thesis
    unfolding notifyActiveWindow_handle [OF assms]
    by (intro exI conjI, rule refl)
       (simp_all add: bindS_def notifyActiveWindow_handle [OF assms]
          notifyActiveWindow_handle [OF again] notifyActiveWindow_handle same)
qed

text \<open>Twice on the window of the specification's example, from the host with no call
  made: the same call stands twice.\<close>

theorem two_invocations_two_identical_calls_witness:
  "bindS (notifyActiveWindow window_code (JObj 1)) (\<lambda>u. notifyActiveWindow window_code (JObj 1))
     (with_window konsole) =
   (Inr (), (with_window konsole)\<lparr>dbus :=
     [\<lparr>service = ''org.toshy.Toshy'', path = ''/org/toshy/Toshy'',
       interface = ''org.toshy.Toshy'', method_name = ''NotifyActiveWindow'',
       args = [JStr ''Terminal'', JStr ''org.kde.konsole'', JStr ''konsole'']\<rparr>,
      \<lparr>service = ''org.toshy.Toshy'', path = ''/org/toshy/Toshy'',
       interface = ''org.toshy.Toshy'', method_name = ''NotifyActiveWindow'',
       args = [JStr ''Terminal'', JStr ''org.kde.konsole'', JStr ''konsole'']\<rparr>]\<rparr>)"
proof -
  from two_invocations_two_identical_calls [OF window_handle_konsole, of window_code]
  obtain c where
    one: "notifyActiveWindow window_code (JObj 1) (with_window konsole) =
            (Inr (), (with_window konsole)\<lparr>dbus := dbus (with_window konsole) @ [c]\<rparr>)"
    and two: "bindS (notifyActiveWindow window_code (JObj 1))
                (\<lambda>u. notifyActiveWindow window_code (JObj 1)) (with_window konsole) =
              (Inr (), (with_window konsole)\<lparr>dbus := dbus (with_window konsole) @ [c, c]\<rparr>)"
    by blast
  have all: "notifyActiveWindow window_code (JObj 1) (with_window konsole) =
     (Inr (), (with_window konsole)\<lparr>dbus := dbus (with_window konsole) @
     [\<lparr>service = ''org.toshy.Toshy'', path = ''/org/toshy/Toshy'',
       interface = ''org.toshy.Toshy'', method_name = ''NotifyActiveWindow'',
       args = [JStr ''Terminal'', JStr ''org.kde.konsole'', JStr ''konsole'']\<rparr>]\<rparr>)"
    unfolding notifyActiveWindow_handle [OF window_handle_konsole]
    by (simp add: with_window_def host0_def konsole_def)
  from one all have "c = \<lparr>service = ''org.toshy.Toshy'', path = ''/org/toshy/Toshy'',
       interface = ''org.toshy.Toshy'', method_name = ''NotifyActiveWindow'',
       args = [JStr ''Terminal'', JStr ''org.kde.konsole'', JStr ''konsole'']\<rparr>"
    by (simp add: with_window_def host0_def)
  with two show ?thesis
    by (simp add: with_window_def host0_def)
qed

section \<open>The subscription\<close>

text \<open>
  C7. Running the script connects \<^verbatim>\<open>notifyActiveWindow\<close> to
  \<^verbatim>\<open>workspace.windowActivated\<close> exactly once: one connection is added to those the
  signal had. However many times the signal is emitted afterwards, with whatever windows
  and whatever code of theirs, the connections stay as the load left them.
\<close>

theorem subscribed_exactly_once:
  "windowActivated (main_script s) = windowActivated s @ [NotifyActiveWindow] \<and>
   windowActivated (fold (emit_windowActivated run) ws (main_script s)) =
     windowActivated (main_script s) \<and>
   count_list (windowActivated (fold (emit_windowActivated run) ws (main_script s)))
     NotifyActiveWindow =
     Suc (count_list (windowActivated s) NotifyActiveWindow)"
  by (simp add: events_connections main_script_def connect_def)

text \<open>On a host with no connection, after three activations, one of them of null.\<close>

theorem subscribed_exactly_once_witness:
  "windowActivated (main_script host0) = [NotifyActiveWindow] \<and>
   windowActivated
     (fold (emit_windowActivated window_code) [JObj 1, JNull, JObj 1] (main_script host0)) =
     [NotifyActiveWindow] \<and>
   count_list (windowActivated
     (fold (emit_windowActivated window_code) [JObj 1, JNull, JObj 1] (main_script host0)))
     NotifyActiveWindow = 1"
  using subscribed_exactly_once [of host0 window_code "[JObj 1, JNull, JObj 1]"]
  by (simp add: host0_def)

section \<open>No mutation\<close>

text \<open>
  C8. On every invocation with null, another falsy value or a window handle, the function
  returns, and the store of objects is then as it was: every own property of the window
  and every property a read finds on it is what it was before. The prototypes of the
  wrappers and the connections of the signal are unchanged as well; the state after differs
  from the state before in the console and the D-Bus calls only, which are the function's
  outputs.
\<close>

theorem window_not_mutated:
  assumes "ToBoolean window \<longrightarrow> window_handle s window"
  shows "\<exists>s'. notifyActiveWindow run window s = (Inr (), s') \<and>
         heap s' = heap s \<and>
         (\<forall>k. GetOwnProperty s' window k = GetOwnProperty s window k) \<and>
         (\<forall>k. find_prop s' window k = find_prop s window k) \<and>
         prim_proto s' = prim_proto s \<and>
         windowActivated s' = windowActivated s \<and>
         s' = s\<lparr>console := console s', dbus := dbus s'\<rparr>"
proof -
  obtain s' where s': "notifyActiveWindow run window s = (Inr (), s')" "heap s' = heap s"
      "prim_proto s' = prim_proto s" "windowActivated s' = windowActivated s"
      "s' = s\<lparr>console := console s', dbus := dbus s'\<rparr>"
    using assms
    by (cases "ToBoolean window")
       (simp_all add: notifyActiveWindow_handle notifyActiveWindow_falsy)
  have "GetOwnProperty s' window k = GetOwnProperty s window k" for k
    using s'(2) by (rule GetOwnProperty_heap)
  moreover have "find_prop s' window k = find_prop s window k" for k
    using s'(2,3) by (rule find_prop_heap)
  ultimately show ?thesis using s' by blast
qed

text \<open>The window of the specification's example is the same object after the call.\<close>

theorem window_not_mutated_witness:
  "\<exists>s'. notifyActiveWindow window_code (JObj 1) (with_window konsole) = (Inr (), s') \<and>
         heap s' 1 = konsole \<and>
         find_prop s' (JObj 1) ''caption'' = Inr (Some (Data (JStr ''Terminal''))) \<and>
         windowActivated s' = []"
proof -
  have "ToBoolean (JObj 1) \<longrightarrow> window_handle (with_window konsole) (JObj 1)"
    using window_handle_konsole by blast
  from window_not_mutated [OF this, of window_code]
  obtain s' where "notifyActiveWindow window_code (JObj 1) (with_window konsole) = (Inr (), s')"
      "heap s' = heap (with_window konsole)"
      "\<forall>k. find_prop s' (JObj 1) k = find_prop (with_window konsole) (JObj 1) k"
      "windowActivated s' = windowActivated (with_window konsole)"
    by blast
  then show ?thesis
    by (simp add: with_window_def host0_def konsole_def)
qed

section \<open>Falsy arguments\<close>

text \<open>
  C9. For every falsy argument the function does what it does for null: it writes the one
  line to the console and makes no D-Bus call. The falsy values are undefined, null, false,
  the two zeros, NaN and the empty string (lemma \<open>falsy_values\<close>).
\<close>

theorem falsy_window_takes_null_branch:
  assumes "\<not> ToBoolean window"
  shows "notifyActiveWindow run window s = notifyActiveWindow run JNull s \<and>
         notifyActiveWindow run window s =
           (Inr (), s\<lparr>console := console s @ [''The client object is null'']\<rparr>) \<and>
         dbus (s\<lparr>console := console s @ [''The client object is null'']\<rparr>) = dbus s"
  using assms by (simp add: notifyActiveWindow_falsy)

text \<open>Undefined, false, the two zeros, NaN and the empty string, each on the host with an
  empty console.\<close>

theorem falsy_window_takes_null_branch_witness:
  "list_all (\<lambda>w. \<not> ToBoolean w \<and>
       notifyActiveWindow window_code w host0 = notifyActiveWindow window_code JNull host0 \<and>
       notifyActiveWindow window_code w host0 =
         (Inr (), host0\<lparr>console := [''The client object is null'']\<rparr>))
     [JUndefined, JBool False, JNum (Finite 0), JNum NegZero, JNum NaN, JStr '''']"
  using falsy_window_takes_null_branch [of JNull window_code host0]
    falsy_window_takes_null_branch [of JUndefined window_code host0]
    falsy_window_takes_null_branch [of "JBool False" window_code host0]
    falsy_window_takes_null_branch [of "JNum (Finite 0)" window_code host0]
    falsy_window_takes_null_branch [of "JNum NegZero" window_code host0]
    falsy_window_takes_null_branch [of "JNum NaN" window_code host0]
    falsy_window_takes_null_branch [of "JStr ''''" window_code host0]
  by (simp add: host0_def)

section \<open>Presence is own-property existence\<close>

text \<open>
  C10. For every non-null window handle and each of the three attributes, the call
  \<^verbatim>\<open>window.hasOwnProperty(k)\<close> returns whether the window has \<open>k\<close> as an own property,
  and the argument passed is the value read when it has and \<open>''UNDEF''\<close> when it has not.
  So an own property whose value is undefined or null is passed as that value, not as
  \<open>''UNDEF''\<close>; and an attribute that is not an own property is passed as \<open>''UNDEF''\<close>
  whatever a read of it gives, also when the prototype chain has it.
\<close>

theorem presence_is_own_property:
  assumes "window_handle s window"
  shows "\<exists>a b c.
           notifyActiveWindow run window s =
           (Inr (), s\<lparr>dbus := dbus s @
             [\<lparr>service = ''org.toshy.Toshy'', path = ''/org/toshy/Toshy'',
               interface = ''org.toshy.Toshy'', method_name = ''NotifyActiveWindow'',
               args = [a, b, c]\<rparr>]\<rparr>) \<and>
           (\<forall>(k, x) \<in> {(''caption'', a), (''resourceClass'', b), (''resourceName'', c)}.
              call_method run window ''hasOwnProperty'' [k] s =
                (Inr (JBool (GetOwnProperty s window k \<noteq> Inr None)), s) \<and>
              (GetOwnProperty s window k \<noteq> Inr None \<longrightarrow> GetV run window k s = (Inr x, s)) \<and>
              (GetOwnProperty s window k = Inr (Some (Data JUndefined)) \<longrightarrow>
                 x = JUndefined \<and> x \<noteq> JStr ''UNDEF'') \<and>
              (GetOwnProperty s window k = Inr (Some (Data JNull)) \<longrightarrow>
                 x = JNull \<and> x \<noteq> JStr ''UNDEF'') \<and>
              (GetOwnProperty s window k = Inr None \<longrightarrow> x = JStr ''UNDEF'') \<and>
              (\<forall>v. GetOwnProperty s window k = Inr None \<and> GetV run window k s = (Inr v, s) \<longrightarrow>
                 x = JStr ''UNDEF''))"
proof -
  from assms have t: "ToBoolean window" and b: "builtin_hasOwnProperty s window"
    and d: "data_attribute s window ''caption''" "data_attribute s window ''resourceClass''"
      "data_attribute s window ''resourceName''"
    by (simp_all add: window_handle_def)
  obtain p1 p2 p3 where ps:
    "GetOwnProperty s window ''caption'' = Inr p1"
    "GetOwnProperty s window ''resourceClass'' = Inr p2"
    "GetOwnProperty s window ''resourceName'' = Inr p3"
    using truthy_GetOwnProperty [OF t] by meson
  note calls = call_builtin_hasOwnProperty [OF b ps(1)] call_builtin_hasOwnProperty [OF b ps(2)]
    call_builtin_hasOwnProperty [OF b ps(3)]
  show ?thesis
    unfolding notifyActiveWindow_handle [OF assms]
    by (intro exI conjI, rule refl)
       (use ps d in \<open>auto simp: calls data_attribute_def GetV_data
          split: option.splits property.splits\<close>)
qed

text \<open>A window with an undefined \<^verbatim>\<open>caption\<close>, a null \<^verbatim>\<open>resourceClass\<close> and a
  \<^verbatim>\<open>resourceName\<close> that a read finds in the prototype.\<close>

theorem presence_is_own_property_witness:
  "find_prop (with_window inherited_name) (JObj 1) ''resourceName'' =
     Inr (Some (Data (JStr ''konsole''))) \<and>
   GetOwnProperty (with_window inherited_name) (JObj 1) ''resourceName'' = Inr None \<and>
   notifyActiveWindow window_code (JObj 1) (with_window inherited_name) =
   (Inr (), (with_window inherited_name)\<lparr>dbus :=
     [\<lparr>service = ''org.toshy.Toshy'', path = ''/org/toshy/Toshy'',
       interface = ''org.toshy.Toshy'', method_name = ''NotifyActiveWindow'',
       args = [JUndefined, JNull, JStr ''UNDEF'']\<rparr>]\<rparr>)"
  using presence_is_own_property [OF window_handle_inherited_name, of window_code]
  by (simp add: with_window_def host0_def inherited_name_def Object_prototype_def)

end
